theory Spec2Isabelle
  imports Complex_Main "HOL-Library.Sublist" "HOL-Library.Multiset" "HOL-Library.Char_ord"
    "HOL-Library.List_Lexorder"
begin

section \<open>Column values\<close>

text \<open>
  A cell of a numeric column of the DataFrame is a float64: a finite value, one of the two
  infinities, or NaN, which is also the marker pandas uses for a missing cell. Finite
  arithmetic is exact here (the rounding and the overflow of binary64 are not modelled) and
  the sign of a zero is not tracked: a zero divisor behaves as \<open>+0.0\<close>.
\<close>

datatype fval = Fin real | PInf | NInf | NaN

text \<open>The comparisons \<open>a <= b\<close> and \<open>a < b\<close>: every comparison with NaN is false.\<close>

fun fle :: "fval \<Rightarrow> fval \<Rightarrow> bool" where
  "fle (Fin x) (Fin y) = (x \<le> y)"
| "fle NaN _ = False"
| "fle _ NaN = False"
| "fle NInf _ = True"
| "fle _ PInf = True"
| "fle _ _ = False"

fun flt :: "fval \<Rightarrow> fval \<Rightarrow> bool" where
  "flt (Fin x) (Fin y) = (x < y)"
| "flt NaN _ = False"
| "flt _ NaN = False"
| "flt PInf _ = False"
| "flt _ NInf = False"
| "flt _ _ = True"

fun fneg :: "fval \<Rightarrow> fval" where
  "fneg (Fin x) = Fin (- x)"
| "fneg PInf = NInf"
| "fneg NInf = PInf"
| "fneg NaN = NaN"

fun fadd :: "fval \<Rightarrow> fval \<Rightarrow> fval" where
  "fadd (Fin x) (Fin y) = Fin (x + y)"
| "fadd NaN _ = NaN"
| "fadd _ NaN = NaN"
| "fadd PInf NInf = NaN"
| "fadd NInf PInf = NaN"
| "fadd PInf _ = PInf"
| "fadd _ PInf = PInf"
| "fadd NInf _ = NInf"
| "fadd _ NInf = NInf"

definition fsub :: "fval \<Rightarrow> fval \<Rightarrow> fval" where
  "fsub a b = fadd a (fneg b)"

fun fmul :: "fval \<Rightarrow> fval \<Rightarrow> fval" where
  "fmul (Fin x) (Fin y) = Fin (x * y)"
| "fmul NaN _ = NaN"
| "fmul _ NaN = NaN"
| "fmul PInf (Fin y) = (if y = 0 then NaN else if 0 < y then PInf else NInf)"
| "fmul NInf (Fin y) = (if y = 0 then NaN else if 0 < y then NInf else PInf)"
| "fmul (Fin x) PInf = (if x = 0 then NaN else if 0 < x then PInf else NInf)"
| "fmul (Fin x) NInf = (if x = 0 then NaN else if 0 < x then NInf else PInf)"
| "fmul PInf PInf = PInf"
| "fmul NInf NInf = PInf"
| "fmul PInf NInf = NInf"
| "fmul NInf PInf = NInf"

text \<open>
  Division of two columns never raises: a finite non-zero value over zero is an infinity,
  zero over zero is NaN.
\<close>

fun fdiv :: "fval \<Rightarrow> fval \<Rightarrow> fval" where
  "fdiv (Fin x) (Fin y) =
     (if y = 0 then (if x = 0 then NaN else if 0 < x then PInf else NInf) else Fin (x / y))"
| "fdiv NaN _ = NaN"
| "fdiv _ NaN = NaN"
| "fdiv (Fin x) _ = Fin 0"
| "fdiv PInf (Fin y) = (if 0 \<le> y then PInf else NInf)"
| "fdiv NInf (Fin y) = (if 0 \<le> y then NInf else PInf)"
| "fdiv _ _ = NaN"

text \<open>
  \<open>Series.mean()\<close> skips NaN (\<open>skipna=True\<close>): the sum of the remaining values over their
  number, and NaN when nothing remains. An infinity is not skipped.
\<close>

definition fsum :: "fval list \<Rightarrow> fval" where
  "fsum vs = foldl fadd (Fin 0) vs"

definition series_mean :: "fval list \<Rightarrow> fval" where
  "series_mean xs =
     (let vs = filter (\<lambda>v. v \<noteq> NaN) xs
      in if vs = [] then NaN else fdiv (fsum vs) (Fin (real (length vs))))"

text \<open>\<open>Series.count()\<close>: the number of cells that are not missing.\<close>

definition series_count :: "fval list \<Rightarrow> nat" where
  "series_count xs = length (filter (\<lambda>v. v \<noteq> NaN) xs)"

section \<open>The table\<close>

datatype category = Budget | Economy | MidRange | Premium

fun label :: "category \<Rightarrow> string" where
  "label Budget = ''Budget''"
| "label Economy = ''Economy''"
| "label MidRange = ''Mid-Range''"
| "label Premium = ''Premium''"

text \<open>
  One listing. The columns the script reads unconditionally are fields; a text cell and a
  flag cell may be missing (\<open>None\<close>), and \<open>price_category\<close> is the categorical cell that
  \<open>load_data\<close> derives (\<open>None\<close> is the NaN category).
\<close>

record row =
  regio1 :: "string option"
  totalRent :: fval
  livingSpace :: fval
  price_category :: "category option"
  balcony :: "bool option"
  hasKitchen :: "bool option"
  lift :: "bool option"
  garden :: "bool option"
  cellar :: "bool option"

text \<open>
  A DataFrame: its column names and its rows in order. The names matter only for the test
  \<open>amenity in filtered_df.columns\<close>; a flag field of a column that is absent is never read.
\<close>

record frame =
  columns :: "string list"
  rows :: "row list"

section \<open>The loader\<close>

text \<open>
  \<open>pd.cut(x, bins, labels)\<close> with its defaults \<open>right=True\<close>, \<open>include_lowest=False\<close>: the
  label of the first interval \<open>(lo, hi]\<close> of consecutive bin edges that holds the value, and
  the NaN category when no interval does.
\<close>

fun cut_bins :: "real list \<Rightarrow> 'a list \<Rightarrow> real \<Rightarrow> 'a option" where
  "cut_bins (lo # hi # bs) (l # ls) x =
     (if lo < x \<and> x \<le> hi then Some l else cut_bins (hi # bs) ls x)"
| "cut_bins _ _ _ = None"

definition pd_cut :: "fval \<Rightarrow> category option" where
  "pd_cut v =
     (case v of
        Fin x \<Rightarrow> cut_bins [0, 500, 1000, 1500, 3000] [Budget, Economy, MidRange, Premium] x
      | _ \<Rightarrow> None)"

text \<open>
  The binning as the specification words it, for comparison: the same edges and labels with
  half-open bins that include their left edge, \<open>[lo, hi)\<close>.
\<close>

fun cut_bins_left_inclusive :: "real list \<Rightarrow> 'a list \<Rightarrow> real \<Rightarrow> 'a option" where
  "cut_bins_left_inclusive (lo # hi # bs) (l # ls) x =
     (if lo \<le> x \<and> x < hi then Some l else cut_bins_left_inclusive (hi # bs) ls x)"
| "cut_bins_left_inclusive _ _ _ = None"

definition spec_price_category :: "fval \<Rightarrow> category option" where
  "spec_price_category v =
     (case v of
        Fin x \<Rightarrow>
          cut_bins_left_inclusive [0, 500, 1000, 1500, 3000]
            [Budget, Economy, MidRange, Premium] x
      | _ \<Rightarrow> None)"

text \<open>
  \<open>load_data\<close>, from the parsed CSV on (the download and the parse are outside the model):
  the column \<open>price_category\<close> is assigned, then the rows with \<open>totalRent <= 3000\<close> are kept.
\<close>

definition assign_price_category :: "frame \<Rightarrow> frame" where
  "assign_price_category df =
     \<lparr>columns =
        (if ''price_category'' \<in> set (columns df) then columns df
         else columns df @ [''price_category'']),
      rows = map (\<lambda>r. r\<lparr>price_category := pd_cut (totalRent r)\<rparr>) (rows df)\<rparr>"

definition load_data :: "frame \<Rightarrow> frame" where
  "load_data raw =
     (let df = assign_price_category raw
      in df\<lparr>rows := filter (\<lambda>r. fle (totalRent r) (Fin 3000)) (rows df)\<rparr>)"

section \<open>The filters\<close>

text \<open>
  Lines 60 to 64: a copy of the table, narrowed by the state unless the selection is
  \<open>All States\<close>, then by the segment unless the selection is \<open>All Segments\<close>. A missing
  region equals no selection, and the NaN category equals no label.
\<close>

definition state_is :: "string \<Rightarrow> row \<Rightarrow> bool" where
  "state_is s r = (regio1 r = Some s)"

definition segment_is :: "string \<Rightarrow> row \<Rightarrow> bool" where
  "segment_is g r = (case price_category r of None \<Rightarrow> False | Some c \<Rightarrow> label c = g)"

definition apply_filters :: "string \<Rightarrow> string \<Rightarrow> frame \<Rightarrow> frame" where
  "apply_filters selected_state selected_segment df =
     (let filtered_df = df;
          filtered_df =
            (if selected_state \<noteq> ''All States''
             then filtered_df\<lparr>rows := filter (state_is selected_state) (rows filtered_df)\<rparr>
             else filtered_df);
          filtered_df =
            (if selected_segment \<noteq> ''All Segments''
             then filtered_df\<lparr>rows := filter (segment_is selected_segment) (rows filtered_df)\<rparr>
             else filtered_df)
      in filtered_df)"

section \<open>The metrics\<close>

definition total_listings :: "frame \<Rightarrow> nat" where
  "total_listings filtered_df = length (rows filtered_df)"






section \<open>Sorting a result table\<close>

text \<open>
  \<open>sort_values(col, ascending=False)\<close>: descending by the key with the NaN keys last
  (\<open>na_position='last'\<close>), rows of equal key in their original order (what the default
  sort does on a table of at most 16 rows; on a longer table the order of rows of equal key
  is left open by the script). \<open>before_desc a b\<close> says that a row of key \<open>a\<close> may stand
  before a row of key \<open>b\<close>.
\<close>

definition before_desc :: "fval \<Rightarrow> fval \<Rightarrow> bool" where
  "before_desc a b = (if b = NaN then True else fle b a)"

fun insert_desc :: "('a \<Rightarrow> fval) \<Rightarrow> 'a \<Rightarrow> 'a list \<Rightarrow> 'a list" where
  "insert_desc f x [] = [x]"
| "insert_desc f x (y # ys) =
     (if before_desc (f x) (f y) then x # y # ys else y # insert_desc f x ys)"

definition sort_values_desc :: "('a \<Rightarrow> fval) \<Rightarrow> 'a list \<Rightarrow> 'a list" where
  "sort_values_desc f xs = foldr (insert_desc f) xs []"

section \<open>Segments and states\<close>

text \<open>
  \<open>DataFrame.round(1)\<close> on a float cell: to one decimal, a tie to the even neighbour;
  infinities and NaN stay.
\<close>

definition round_half_even :: "real \<Rightarrow> int" where
  "round_half_even y =
     (let f = \<lfloor>y\<rfloor>; d = y - of_int f
      in if d < 1 / 2 then f else if 1 / 2 < d then f + 1 else if even f then f else f + 1)"

fun round1 :: "fval \<Rightarrow> fval" where
  "round1 (Fin x) = Fin (of_int (round_half_even (x * 10)) / 10)"
| "round1 v = v"

record 'k group_stats =
  key :: 'k
  g_avg_rent :: fval
  g_count :: nat
  g_avg_space :: fval

text \<open>
  \<open>groupby(col).agg({'totalRent': ['mean', 'count'], 'livingSpace': 'mean'}).round(1)\<close>
  followed by \<open>reset_index()\<close>: one row for each group key, in the order of the keys. A row
  whose key cell is missing belongs to no group.
\<close>

definition group_agg :: "'k list \<Rightarrow> (row \<Rightarrow> 'k option) \<Rightarrow> frame \<Rightarrow> 'k group_stats list" where
  "group_agg keys col df =
     map (\<lambda>k.
            let g = filter (\<lambda>r. col r = Some k) (rows df)
            in \<lparr>key = k,
                g_avg_rent = round1 (series_mean (map totalRent g)),
                g_count = series_count (map totalRent g),
                g_avg_space = round1 (series_mean (map livingSpace g))\<rparr>)
         keys"

definition categories :: "category list" where
  "categories = [Budget, Economy, MidRange, Premium]"

text \<open>
  The group keys of the categorical column \<open>price_category\<close>, in the order of the
  categories. The call at line 92 leaves \<open>observed\<close> to the default of the installed pandas,
  which the repository does not pin: \<open>False\<close> (every category is a group, also an empty
  one) before pandas 3, \<open>True\<close> (only the categories that occur) from pandas 3 on. It is a
  parameter here.
\<close>

definition segment_keys :: "bool \<Rightarrow> frame \<Rightarrow> category list" where
  "segment_keys observed df =
     (if observed then filter (\<lambda>c. Some c \<in> set (map price_category (rows df))) categories
      else categories)"

definition segment_data :: "bool \<Rightarrow> frame \<Rightarrow> category group_stats list" where
  "segment_data observed filtered_df =
     group_agg (segment_keys observed filtered_df) price_category filtered_df"

text \<open>
  The group keys of the text column \<open>regio1\<close>: the distinct values that occur, sorted
  (\<open>sort=True\<close>), the missing ones dropped (\<open>dropna=True\<close>).
\<close>

definition state_keys :: "frame \<Rightarrow> string list" where
  "state_keys df = sort (remdups (List.map_filter regio1 (rows df)))"

definition state_data :: "frame \<Rightarrow> string group_stats list" where
  "state_data filtered_df =
     sort_values_desc g_avg_rent (group_agg (state_keys filtered_df) regio1 filtered_df)"

section \<open>The amenities\<close>

definition amenities :: "string list" where
  "amenities = [''balcony'', ''hasKitchen'', ''lift'', ''garden'', ''cellar'']"

text \<open>The cell of a flag column, by the name of the column.\<close>

definition amenity_cell :: "string \<Rightarrow> row \<Rightarrow> bool option" where
  "amenity_cell a r =
     (if a = ''balcony'' then balcony r
      else if a = ''hasKitchen'' then hasKitchen r
      else if a = ''lift'' then lift r
      else if a = ''garden'' then garden r
      else if a = ''cellar'' then cellar r
      else None)"

record amenity_stat =
  amenity :: string
  premium_pct :: fval
  prevalence :: fval

definition with_amenity :: "string \<Rightarrow> frame \<Rightarrow> fval" where
  "with_amenity a df =
     series_mean (map totalRent (filter (\<lambda>r. amenity_cell a r = Some True) (rows df)))"

definition without_amenity :: "string \<Rightarrow> frame \<Rightarrow> fval" where
  "without_amenity a df =
     series_mean (map totalRent (filter (\<lambda>r. amenity_cell a r = Some False) (rows df)))"

text \<open>\<open>filtered_df[amenity].sum()\<close>: the number of true cells.\<close>

definition flag_sum :: "string \<Rightarrow> frame \<Rightarrow> nat" where
  "flag_sum a df = length (filter (\<lambda>r. amenity_cell a r = Some True) (rows df))"

definition amenity_entry :: "string \<Rightarrow> frame \<Rightarrow> amenity_stat" where
  "amenity_entry a df =
     \<lparr>amenity = a,
      premium_pct =
        fmul (fdiv (fsub (with_amenity a df) (without_amenity a df)) (without_amenity a df))
          (Fin 100),
      prevalence =
        fmul (fdiv (Fin (real (flag_sum a df))) (Fin (real (length (rows df))))) (Fin 100)\<rparr>"

text \<open>
  The loop of lines 156 to 167, with the list \<open>amenity_results\<close> as an accumulator: an
  amenity whose column is absent, or whose mean rent without it is not greater than zero,
  appends nothing.
\<close>

fun amenity_loop :: "string list \<Rightarrow> frame \<Rightarrow> amenity_stat list \<Rightarrow> amenity_stat list" where
  "amenity_loop [] df amenity_results = amenity_results"
| "amenity_loop (a # as) df amenity_results =
     (if a \<in> set (columns df) then
        (if flt (Fin 0) (without_amenity a df)
         then amenity_loop as df (amenity_results @ [amenity_entry a df])
         else amenity_loop as df amenity_results)
      else amenity_loop as df amenity_results)"

definition amenity_results :: "frame \<Rightarrow> amenity_stat list" where
  "amenity_results filtered_df = amenity_loop amenities filtered_df []"

text \<open>Lines 169 and 170: the sorted table exists only when some amenity was kept.\<close>

definition amenity_df :: "frame \<Rightarrow> amenity_stat list option" where
  "amenity_df filtered_df =
     (if amenity_results filtered_df \<noteq> []
      then Some (sort_values_desc premium_pct (amenity_results filtered_df))
      else None)"

section \<open>Example tables\<close>

definition listing :: "string \<Rightarrow> real \<Rightarrow> real \<Rightarrow> row" where
  "listing s rent space =
     \<lparr>regio1 = Some s, totalRent = Fin rent, livingSpace = Fin space, price_category = None,
      balcony = None, hasKitchen = None, lift = None, garden = None, cellar = None\<rparr>"

definition base_columns :: "string list" where
  "base_columns = [''regio1'', ''totalRent'', ''livingSpace'']"

definition csv_missing_rent :: frame where
  "csv_missing_rent =
     \<lparr>columns = base_columns,
      rows = [(listing ''Berlin'' 0 40)\<lparr>totalRent := NaN\<rparr>, listing ''Berlin'' 1200 60,
              listing ''Bayern'' 3500 90]\<rparr>"

definition csv_boundaries :: frame where
  "csv_boundaries =
     \<lparr>columns = base_columns,
      rows = [listing ''Berlin'' 500 30, listing ''Berlin'' 750 45, listing ''Bayern'' 1000 60,
              listing ''Bayern'' 1500 80, listing ''Hessen'' 3000 120,
              listing ''Hessen'' 3000.5 120]\<rparr>"


definition csv_berlin :: frame where
  "csv_berlin =
     \<lparr>columns = base_columns,
      rows = [listing ''Berlin'' 400 40, listing ''Berlin'' 1200 60]\<rparr>"


definition csv_balcony :: frame where
  "csv_balcony =
     \<lparr>columns = base_columns @ [''balcony'', ''lift''],
      rows = [(listing ''Berlin'' 900 50)\<lparr>balcony := Some True, lift := Some False\<rparr>,
              (listing ''Berlin'' 700 45)\<lparr>balcony := Some False, lift := Some False\<rparr>,
              (listing ''Bayern'' 1100 70)\<lparr>balcony := Some True, lift := Some True\<rparr>,
              (listing ''Bayern'' 900 65)\<lparr>balcony := Some False, lift := Some False\<rparr>]\<rparr>"

definition csv_all_balcony :: frame where
  "csv_all_balcony =
     \<lparr>columns = base_columns @ [''balcony''],
      rows = [(listing ''Berlin'' 900 50)\<lparr>balcony := Some True\<rparr>,
              (listing ''Bayern'' 1100 70)\<lparr>balcony := Some True\<rparr>]\<rparr>"

definition csv_free_cellar :: frame where
  "csv_free_cellar =
     \<lparr>columns = base_columns @ [''balcony'', ''cellar''],
      rows = [(listing ''Berlin'' 0 20)\<lparr>balcony := Some True, cellar := Some False\<rparr>,
              (listing ''Berlin'' 900 50)\<lparr>balcony := Some False, cellar := Some True\<rparr>,
              (listing ''Bayern'' 600 40)\<lparr>balcony := Some False, cellar := Some True\<rparr>]\<rparr>"

definition seventeen_regions :: "string list" where
  "seventeen_regions =
     [''R01'', ''R02'', ''R03'', ''R04'', ''R05'', ''R06'', ''R07'', ''R08'', ''R09'',
      ''R10'', ''R11'', ''R12'', ''R13'', ''R14'', ''R15'', ''R16'', ''R17'']"

definition csv_seventeen :: frame where
  "csv_seventeen =
     \<lparr>columns = base_columns, rows = map (\<lambda>s. listing s 800 60) seventeen_regions\<rparr>"

text \<open>The two Berlin listings after load, with the state selector on Berlin.\<close>

definition berlin_view :: frame where
  "berlin_view = apply_filters ''Berlin'' ''All Segments'' (load_data csv_berlin)"

section \<open>Properties of the loader\<close>

lemma rows_load_data:
  "rows (load_data raw) =
     filter (\<lambda>r. fle (totalRent r) (Fin 3000))
       (map (\<lambda>r. r\<lparr>price_category := pd_cut (totalRent r)\<rparr>) (rows raw))"
  by (simp add: load_data_def assign_price_category_def)

lemma fle_not_NaN: "fle a b \<Longrightarrow> a \<noteq> NaN"
  by (cases a) auto

lemma rows_apply_filters_subset:
  "set (rows (apply_filters s g df)) \<subseteq> set (rows df)"
  by (auto simp: apply_filters_def Let_def)

lemma pd_cut_Fin:
  "pd_cut (Fin x) =
     (if 0 < x \<and> x \<le> 500 then Some Budget
      else if 500 < x \<and> x \<le> 1000 then Some Economy
      else if 1000 < x \<and> x \<le> 1500 then Some MidRange
      else if 1500 < x \<and> x \<le> 3000 then Some Premium
      else None)"
  by (simp add: pd_cut_def)


lemma loaded_row:
  assumes "r \<in> set (rows (load_data raw))"
  shows "price_category r = pd_cut (totalRent r)" and "fle (totalRent r) (Fin 3000)"
  using assms by (auto simp: rows_load_data)

text \<open>
  C1. The bins of \<open>pd.cut\<close> are half-open and include their right edge: Budget is
  \<open>(0, 500]\<close>, Economy \<open>(500, 1000]\<close>, Mid-Range \<open>(1000, 1500]\<close>, Premium \<open>(1500, 3000]\<close>. For
  every retained row a totalRent of 750 is Economy and one of 1500 is Mid-Range; the
  boundary 500 is Budget and the boundary 1000 is Economy.
\<close>

theorem price_category_right_closed_bins:
  "(\<forall>r \<in> set (rows (load_data raw)). \<forall>x. totalRent r = Fin x \<longrightarrow>
      price_category r =
        (if 0 < x \<and> x \<le> 500 then Some Budget
         else if 500 < x \<and> x \<le> 1000 then Some Economy
         else if 1000 < x \<and> x \<le> 1500 then Some MidRange
         else if 1500 < x \<and> x \<le> 3000 then Some Premium
         else None))
   \<and> pd_cut (Fin 750) = Some Economy \<and> pd_cut (Fin 1500) = Some MidRange
   \<and> pd_cut (Fin 500) = Some Budget \<and> pd_cut (Fin 1000) = Some Economy"
  using loaded_row(1) [of _ raw] by (simp add: pd_cut_Fin)

theorem price_category_right_closed_bins_witness:
  "map (\<lambda>r. (totalRent r, price_category r)) (rows (load_data csv_boundaries))
     = [(Fin 500, Some Budget), (Fin 750, Some Economy), (Fin 1000, Some Economy),
        (Fin 1500, Some MidRange), (Fin 3000, Some Premium)]"
  using price_category_right_closed_bins [of csv_boundaries]
  by (simp add: rows_load_data csv_boundaries_def listing_def pd_cut_def)

text \<open>
  The binning as the specification words it (bins that include their left edge) fails at the
  boundaries: the loader puts 500 in Budget, 1000 in Economy, 1500 in Mid-Range and 3000 in
  Premium, where left-inclusive bins give Economy, Mid-Range, Premium and no category.
\<close>

theorem price_category_not_left_inclusive:
  "map price_category (rows (load_data csv_boundaries))
     = [Some Budget, Some Economy, Some Economy, Some MidRange, Some Premium]
   \<and> map (\<lambda>r. spec_price_category (totalRent r)) (rows (load_data csv_boundaries))
     = [Some Economy, Some Economy, Some MidRange, Some Premium, None]"
  by (simp add: rows_load_data csv_boundaries_def listing_def pd_cut_def
      spec_price_category_def)




text \<open>
  C3. Every row of the loaded table has \<open>totalRent <= 3000\<close>, and so has every row of any
  table the filters make of it.
\<close>

theorem loaded_rent_at_most_ceiling:
  "(\<forall>r \<in> set (rows (load_data raw)). fle (totalRent r) (Fin 3000))
   \<and> (\<forall>r \<in> set (rows (apply_filters s g (load_data raw))). fle (totalRent r) (Fin 3000))"
  using rows_apply_filters_subset [of s g "load_data raw"] loaded_row(2) [of _ raw]
  by blast

theorem loaded_rent_at_most_ceiling_witness:
  "map totalRent (rows csv_boundaries)
     = [Fin 500, Fin 750, Fin 1000, Fin 1500, Fin 3000, Fin 3000.5]
   \<and> map totalRent (rows (load_data csv_boundaries))
     = [Fin 500, Fin 750, Fin 1000, Fin 1500, Fin 3000]
   \<and> map totalRent (rows (apply_filters ''Bayern'' ''Economy'' (load_data csv_boundaries)))
     = [Fin 1000]
   \<and> list_all (\<lambda>r. fle (totalRent r) (Fin 3000)) (rows (load_data csv_boundaries))"
  using loaded_rent_at_most_ceiling [of csv_boundaries "''Bayern''" "''Economy''"]
  by (simp add: csv_boundaries_def listing_def apply_filters_def state_is_def
      segment_is_def pd_cut_def load_data_def assign_price_category_def)

text \<open>
  C10. The comparison \<open>totalRent <= 3000\<close> is false for a missing (NaN) rent, so the loaded
  table has no row whose totalRent is missing.
\<close>

theorem load_data_drops_missing_rent:
  "\<forall>r \<in> set (rows (load_data raw)). totalRent r \<noteq> NaN"
  by (auto simp: rows_load_data dest: fle_not_NaN)

theorem load_data_drops_missing_rent_witness:
  "map totalRent (rows csv_missing_rent) = [NaN, Fin 1200, Fin 3500]
   \<and> map totalRent (rows (load_data csv_missing_rent)) = [Fin 1200]
   \<and> NaN \<notin> set (map totalRent (rows (load_data csv_missing_rent)))"
  using load_data_drops_missing_rent [of csv_missing_rent]
  by (simp add: rows_load_data csv_missing_rent_def listing_def)

section \<open>Properties of the filters\<close>

lemma apply_filters_rows:
  "rows (apply_filters s g df) =
     filter (\<lambda>r. (s = ''All States'' \<or> state_is s r) \<and> (g = ''All Segments'' \<or> segment_is g r))
       (rows df)"
  by (auto simp: apply_filters_def Let_def intro: filter_cong)

lemma apply_filters_columns: "columns (apply_filters s g df) = columns df"
  by (simp add: apply_filters_def Let_def)

text \<open>
  C5. With both sentinel selections the filters return their input. In general they keep
  the columns and return, in their original order, the rows that pass zero, one or two
  equality tests: the region of the row equals the selected state, and the label of the
  row's price category equals the selected segment. No selection is an error.
\<close>

theorem apply_filters_sentinel_and_subset:
  "apply_filters ''All States'' ''All Segments'' df = df
   \<and> columns (apply_filters s g df) = columns df
   \<and> rows (apply_filters s g df) =
       filter (\<lambda>r. (s = ''All States'' \<or> regio1 r = Some s)
                 \<and> (g = ''All Segments'' \<or> (\<exists>c. price_category r = Some c \<and> label c = g)))
         (rows df)
   \<and> subseq (rows (apply_filters s g df)) (rows df)"
proof -
  have seg: "\<And>r. segment_is g r = (\<exists>c. price_category r = Some c \<and> label c = g)"
    by (simp add: segment_is_def split: option.split)
  show ?thesis
    by (simp add: apply_filters_rows apply_filters_columns state_is_def seg)
qed

lemma rows_csv_boundaries:
  "rows (load_data csv_boundaries) =
     [(listing ''Berlin'' 500 30)\<lparr>price_category := Some Budget\<rparr>,
      (listing ''Berlin'' 750 45)\<lparr>price_category := Some Economy\<rparr>,
      (listing ''Bayern'' 1000 60)\<lparr>price_category := Some Economy\<rparr>,
      (listing ''Bayern'' 1500 80)\<lparr>price_category := Some MidRange\<rparr>,
      (listing ''Hessen'' 3000 120)\<lparr>price_category := Some Premium\<rparr>]"
  by (simp add: rows_load_data csv_boundaries_def listing_def pd_cut_def)

theorem apply_filters_sentinel_and_subset_witness:
  "rows (apply_filters ''Bayern'' ''Economy'' (load_data csv_boundaries))
     = [(listing ''Bayern'' 1000 60)\<lparr>price_category := Some Economy\<rparr>]
   \<and> rows (apply_filters ''Bayern'' ''All Segments'' (load_data csv_boundaries))
     = [(listing ''Bayern'' 1000 60)\<lparr>price_category := Some Economy\<rparr>,
        (listing ''Bayern'' 1500 80)\<lparr>price_category := Some MidRange\<rparr>]
   \<and> rows (apply_filters ''All States'' ''Economy'' (load_data csv_boundaries))
     = [(listing ''Berlin'' 750 45)\<lparr>price_category := Some Economy\<rparr>,
        (listing ''Bayern'' 1000 60)\<lparr>price_category := Some Economy\<rparr>]
   \<and> rows (apply_filters ''Saarland'' ''Mid-Range'' (load_data csv_boundaries)) = []
   \<and> apply_filters ''All States'' ''All Segments'' (load_data csv_boundaries)
     = load_data csv_boundaries"
proof -
  note t = apply_filters_sentinel_and_subset [of "load_data csv_boundaries"]
  have a: "rows (apply_filters ''Bayern'' ''Economy'' (load_data csv_boundaries))
     = [(listing ''Bayern'' 1000 60)\<lparr>price_category := Some Economy\<rparr>]"
    using t [of "''Bayern''" "''Economy''"] by (simp add: rows_csv_boundaries listing_def)
  have b: "rows (apply_filters ''Bayern'' ''All Segments'' (load_data csv_boundaries))
     = [(listing ''Bayern'' 1000 60)\<lparr>price_category := Some Economy\<rparr>,
        (listing ''Bayern'' 1500 80)\<lparr>price_category := Some MidRange\<rparr>]"
    using t [of "''Bayern''" "''All Segments''"] by (simp add: rows_csv_boundaries listing_def)
  have c: "rows (apply_filters ''All States'' ''Economy'' (load_data csv_boundaries))
     = [(listing ''Berlin'' 750 45)\<lparr>price_category := Some Economy\<rparr>,
        (listing ''Bayern'' 1000 60)\<lparr>price_category := Some Economy\<rparr>]"
    using t [of "''All States''" "''Economy''"] by (simp add: rows_csv_boundaries listing_def)
  have d: "rows (apply_filters ''Saarland'' ''Mid-Range'' (load_data csv_boundaries)) = []"
    using t [of "''Saarland''" "''Mid-Range''"] by (simp add: rows_csv_boundaries listing_def)
  have e: "apply_filters ''All States'' ''All Segments'' (load_data csv_boundaries)
     = load_data csv_boundaries"
    using t [of "''Bayern''" "''Economy''"] by blast
  from a b c d e show ?thesis by blast
qed

text \<open>
  C6. Filtering is idempotent: a table already filtered by a selection is unchanged by the
  same selection.
\<close>

theorem apply_filters_idempotent:
  "apply_filters s g (apply_filters s g df) = apply_filters s g df"
  by (simp add: apply_filters_def Let_def cong: conj_cong)

section \<open>Properties of the metrics\<close>















lemma rows_berlin_view:
  "rows berlin_view =
     [(listing ''Berlin'' 400 40)\<lparr>price_category := Some Budget\<rparr>,
      (listing ''Berlin'' 1200 60)\<lparr>price_category := Some MidRange\<rparr>]"
  by (simp add: berlin_view_def apply_filters_rows rows_load_data csv_berlin_def listing_def
      state_is_def pd_cut_def)






section \<open>Properties of the sort\<close>

lemma fle_trans: "fle a b \<Longrightarrow> fle b c \<Longrightarrow> fle a c"
  by (cases a; cases b; cases c) auto

lemma fle_total: "a \<noteq> NaN \<Longrightarrow> b \<noteq> NaN \<Longrightarrow> fle a b \<or> fle b a"
  by (cases a; cases b) auto

lemma fle_NaN_right: "\<not> fle a NaN"
  by (cases a) auto

lemma before_desc_trans: "before_desc a b \<Longrightarrow> before_desc b c \<Longrightarrow> before_desc a c"
  by (cases "c = NaN"; cases "b = NaN")
     (auto simp: before_desc_def fle_NaN_right dest: fle_trans)

lemma before_desc_total: "\<not> before_desc a b \<Longrightarrow> before_desc b a"
  by (cases a; cases b) (auto simp: before_desc_def)

lemma set_insert_desc: "set (insert_desc f x ys) = insert x (set ys)"
  by (induction ys) auto

lemma mset_insert_desc: "mset (insert_desc f x ys) = add_mset x (mset ys)"
  by (induction ys) auto

lemma sorted_insert_desc:
  "sorted_wrt (\<lambda>a b. before_desc (f a) (f b)) ys \<Longrightarrow>
   sorted_wrt (\<lambda>a b. before_desc (f a) (f b)) (insert_desc f x ys)"
  by (induction ys)
     (auto simp: set_insert_desc dest: before_desc_total intro: before_desc_trans)

lemma mset_sort_values_desc: "mset (sort_values_desc f xs) = mset xs"
  by (induction xs) (simp_all add: sort_values_desc_def mset_insert_desc)

lemma sorted_sort_values_desc:
  "sorted_wrt (\<lambda>a b. before_desc (f a) (f b)) (sort_values_desc f xs)"
  by (induction xs) (simp_all add: sort_values_desc_def sorted_insert_desc)

lemma length_sort_values_desc: "length (sort_values_desc f xs) = length xs"
  using mset_sort_values_desc [of f xs] by (metis size_mset)

lemma set_sort_values_desc: "set (sort_values_desc f xs) = set xs"
  using mset_sort_values_desc [of f xs] by (metis set_mset_mset)

section \<open>Properties of the amenities\<close>

lemma amenity_loop_eq:
  "amenity_loop as df acc =
     acc @ map (\<lambda>a. amenity_entry a df)
             (filter (\<lambda>a. a \<in> set (columns df) \<and> flt (Fin 0) (without_amenity a df)) as)"
  by (induction as arbitrary: acc) simp_all

lemma amenity_results_eq:
  "amenity_results df =
     map (\<lambda>a. amenity_entry a df)
       (filter (\<lambda>a. a \<in> set (columns df) \<and> flt (Fin 0) (without_amenity a df)) amenities)"
  by (simp add: amenity_results_def amenity_loop_eq)

lemma amenity_of_entry: "amenity (amenity_entry a df) = a"
  by (simp add: amenity_entry_def)

lemma amenity_names:
  "map amenity (amenity_results df) =
     filter (\<lambda>a. a \<in> set (columns df) \<and> flt (Fin 0) (without_amenity a df)) amenities"
  by (simp add: amenity_results_eq o_def amenity_of_entry)

lemma amenity_loop_skip:
  "\<not> flt (Fin 0) (without_amenity a df) \<Longrightarrow>
   amenity_loop as df acc = amenity_loop (removeAll a as) df acc"
  by (induction as arbitrary: acc) auto


lemma columns_load_data:
  "set (columns (load_data raw)) = insert ''price_category'' (set (columns raw))"
  by (auto simp: load_data_def assign_price_category_def)

lemma premium_pct_finite:
  "with_amenity a df = Fin mt \<Longrightarrow> without_amenity a df = Fin mf \<Longrightarrow> 0 < mf \<Longrightarrow>
   premium_pct (amenity_entry a df) = Fin ((mt - mf) / mf * 100)"
  by (simp add: amenity_entry_def fsub_def)

lemma prevalence_finite:
  "rows df \<noteq> [] \<Longrightarrow>
   prevalence (amenity_entry a df) = Fin (real (flag_sum a df) / real (length (rows df)) * 100)"
  by (simp add: amenity_entry_def)

lemma amenity_df_sorted:
  "amenity_df df = Some t \<Longrightarrow>
   sorted_wrt (\<lambda>x y. before_desc (premium_pct x) (premium_pct y)) t
   \<and> mset t = mset (amenity_results df)"
  by (auto simp: amenity_df_def sorted_sort_values_desc mset_sort_values_desc split: if_splits)

lemma balcony_scenario:
  "with_amenity ''balcony'' df = Fin 1000 \<Longrightarrow> without_amenity ''balcony'' df = Fin 800 \<Longrightarrow>
   flag_sum ''balcony'' df = 2 \<Longrightarrow> length (rows df) = 4 \<Longrightarrow>
   amenity_entry ''balcony'' df
     = \<lparr>amenity = ''balcony'', premium_pct = Fin 25, prevalence = Fin 50\<rparr>"
  by (simp add: amenity_entry_def fsub_def)

text \<open>
  C8. The amenity results are, in the order of the fixed list, the entries of the amenity
  columns that are present and whose mean rent without the amenity is above zero; a present
  column whose mean rent without the amenity is zero, negative or undefined has no entry. An entry
  holds \<open>premium_pct = (with - without) / without * 100\<close> over the two mean rents and
  \<open>prevalence = true cells / rows * 100\<close>. The table shown is these entries sorted descending
  by premium_pct. A balcony column with two true rows of mean rent 1000 and two false rows of
  mean rent 800 gives a premium of 25 and a prevalence of 50.
\<close>

theorem amenity_premium_prevalence_sorted:
  "amenity_results df =
     map (\<lambda>a. amenity_entry a df)
       (filter (\<lambda>a. a \<in> set (columns df) \<and> flt (Fin 0) (without_amenity a df)) amenities)
   \<and> (a \<in> set amenities \<and> a \<in> set (columns df) \<and> flt (Fin 0) (without_amenity a df) \<longrightarrow>
        amenity_entry a df \<in> set (amenity_results df))
   \<and> (\<not> flt (Fin 0) (without_amenity a df) \<longrightarrow>
        a \<notin> set (map amenity (amenity_results df)))
   \<and> (with_amenity a df = Fin mt \<and> without_amenity a df = Fin mf \<and> 0 < mf \<longrightarrow>
        premium_pct (amenity_entry a df) = Fin ((mt - mf) / mf * 100))
   \<and> (rows df \<noteq> [] \<longrightarrow>
        prevalence (amenity_entry a df)
          = Fin (real (flag_sum a df) / real (length (rows df)) * 100))
   \<and> (amenity_df df = Some t \<longrightarrow>
        sorted_wrt (\<lambda>x y. before_desc (premium_pct x) (premium_pct y)) t
        \<and> mset t = mset (amenity_results df))
   \<and> (with_amenity ''balcony'' df = Fin 1000 \<and> without_amenity ''balcony'' df = Fin 800
        \<and> flag_sum ''balcony'' df = 2 \<and> length (rows df) = 4 \<longrightarrow>
        amenity_entry ''balcony'' df
          = \<lparr>amenity = ''balcony'', premium_pct = Fin 25, prevalence = Fin 50\<rparr>)"
proof -
  have kept: "a \<in> set amenities \<and> a \<in> set (columns df) \<and> flt (Fin 0) (without_amenity a df)
      \<longrightarrow> amenity_entry a df \<in> set (amenity_results df)"
    by (simp add: amenity_results_eq)
  have skipped: "\<not> flt (Fin 0) (without_amenity a df) \<longrightarrow>
      a \<notin> set (map amenity (amenity_results df))"
    by (simp add: amenity_names)
  show ?thesis
    using amenity_results_eq [of df] premium_pct_finite [of a df mt mf]
      prevalence_finite [of df a] amenity_df_sorted [of df t] balcony_scenario [of df]
      kept skipped
    by blast
qed

lemma rows_csv_balcony:
  "rows (load_data csv_balcony) =
     [(listing ''Berlin'' 900 50)\<lparr>price_category := Some Economy, balcony := Some True, lift := Some False\<rparr>,
      (listing ''Berlin'' 700 45)\<lparr>price_category := Some Economy, balcony := Some False, lift := Some False\<rparr>,
      (listing ''Bayern'' 1100 70)\<lparr>price_category := Some MidRange, balcony := Some True, lift := Some True\<rparr>,
      (listing ''Bayern'' 900 65)\<lparr>price_category := Some Economy, balcony := Some False, lift := Some False\<rparr>]"
  by (simp add: rows_load_data csv_balcony_def listing_def pd_cut_def)

lemma balcony_means:
  "with_amenity ''balcony'' (load_data csv_balcony) = Fin 1000"
  "without_amenity ''balcony'' (load_data csv_balcony) = Fin 800"
  "flag_sum ''balcony'' (load_data csv_balcony) = 2"
  "with_amenity ''lift'' (load_data csv_balcony) = Fin 1100"
  "without_amenity ''lift'' (load_data csv_balcony) = Fin (2500 / 3)"
  "flag_sum ''lift'' (load_data csv_balcony) = 1"
  by (simp_all add: with_amenity_def without_amenity_def flag_sum_def rows_csv_balcony
      listing_def amenity_cell_def series_mean_def fsum_def)

lemma balcony_entries:
  "amenity_entry ''balcony'' (load_data csv_balcony)
     = \<lparr>amenity = ''balcony'', premium_pct = Fin 25, prevalence = Fin 50\<rparr>"
  "amenity_entry ''lift'' (load_data csv_balcony)
     = \<lparr>amenity = ''lift'', premium_pct = Fin 32, prevalence = Fin 25\<rparr>"
  by (simp_all add: amenity_entry_def balcony_means fsub_def rows_csv_balcony)

lemma columns_csv_balcony:
  "columns (load_data csv_balcony)
     = [''regio1'', ''totalRent'', ''livingSpace'', ''balcony'', ''lift'', ''price_category'']"
  by (simp add: load_data_def assign_price_category_def csv_balcony_def base_columns_def)

lemma balcony_results:
  "amenity_results (load_data csv_balcony)
     = [\<lparr>amenity = ''balcony'', premium_pct = Fin 25, prevalence = Fin 50\<rparr>,
        \<lparr>amenity = ''lift'', premium_pct = Fin 32, prevalence = Fin 25\<rparr>]"
  by (simp add: amenity_results_def amenities_def columns_csv_balcony balcony_means
      balcony_entries)

lemma balcony_df:
  "amenity_df (load_data csv_balcony)
     = Some [\<lparr>amenity = ''lift'', premium_pct = Fin 32, prevalence = Fin 25\<rparr>,
             \<lparr>amenity = ''balcony'', premium_pct = Fin 25, prevalence = Fin 50\<rparr>]"
  by (simp add: amenity_df_def balcony_results sort_values_desc_def before_desc_def)


theorem amenity_premium_prevalence_sorted_witness:
  "''balcony'' \<in> set amenities
   \<and> ''balcony'' \<in> set (columns (load_data csv_balcony))
   \<and> with_amenity ''balcony'' (load_data csv_balcony) = Fin 1000
   \<and> without_amenity ''balcony'' (load_data csv_balcony) = Fin 800
   \<and> flag_sum ''balcony'' (load_data csv_balcony) = 2
   \<and> length (rows (load_data csv_balcony)) = 4
   \<and> amenity_entry ''balcony'' (load_data csv_balcony)
       = \<lparr>amenity = ''balcony'', premium_pct = Fin 25, prevalence = Fin 50\<rparr>
   \<and> amenity_results (load_data csv_balcony)
       = [\<lparr>amenity = ''balcony'', premium_pct = Fin 25, prevalence = Fin 50\<rparr>,
          \<lparr>amenity = ''lift'', premium_pct = Fin 32, prevalence = Fin 25\<rparr>]
   \<and> amenity_df (load_data csv_balcony)
       = Some [\<lparr>amenity = ''lift'', premium_pct = Fin 32, prevalence = Fin 25\<rparr>,
               \<lparr>amenity = ''balcony'', premium_pct = Fin 25, prevalence = Fin 50\<rparr>]"
proof -
  note t = amenity_premium_prevalence_sorted [of "load_data csv_balcony" "''balcony''" 1000 800
      "[\<lparr>amenity = ''lift'', premium_pct = Fin 32, prevalence = Fin 25\<rparr>,
        \<lparr>amenity = ''balcony'', premium_pct = Fin 25, prevalence = Fin 50\<rparr>]"]
  have m: "''balcony'' \<in> set amenities" by (simp add: amenities_def)
  have c: "''balcony'' \<in> set (columns (load_data csv_balcony))"
    by (simp add: columns_csv_balcony)
  have w: "with_amenity ''balcony'' (load_data csv_balcony) = Fin 1000"
    and wo: "without_amenity ''balcony'' (load_data csv_balcony) = Fin 800"
    and fs: "flag_sum ''balcony'' (load_data csv_balcony) = 2"
    by (simp_all add: balcony_means)
  have len: "length (rows (load_data csv_balcony)) = 4" by (simp add: rows_csv_balcony)
  have e: "amenity_entry ''balcony'' (load_data csv_balcony)
       = \<lparr>amenity = ''balcony'', premium_pct = Fin 25, prevalence = Fin 50\<rparr>"
    using t w wo fs len by blast
  from m c w wo fs len e balcony_results balcony_df show ?thesis by blast
qed

lemma rows_csv_all_balcony:
  "rows (load_data csv_all_balcony) =
     [(listing ''Berlin'' 900 50)\<lparr>price_category := Some Economy, balcony := Some True\<rparr>,
      (listing ''Bayern'' 1100 70)\<lparr>price_category := Some MidRange, balcony := Some True\<rparr>]"
  by (simp add: rows_load_data csv_all_balcony_def listing_def pd_cut_def)

lemma columns_csv_all_balcony:
  "columns (load_data csv_all_balcony)
     = [''regio1'', ''totalRent'', ''livingSpace'', ''balcony'', ''price_category'']"
  by (simp add: load_data_def assign_price_category_def csv_all_balcony_def base_columns_def)

lemma all_balcony_means:
  "with_amenity ''balcony'' (load_data csv_all_balcony) = Fin 1000"
  "without_amenity ''balcony'' (load_data csv_all_balcony) = NaN"
  by (simp_all add: with_amenity_def without_amenity_def rows_csv_all_balcony
      listing_def amenity_cell_def series_mean_def fsum_def)

text \<open>
  A column that is present has no entry when no row is without the amenity: the mean rent
  without it is then undefined, and the comparison with zero at line 161 is false.
\<close>

theorem present_column_without_false_rows_has_no_entry:
  "columns (load_data csv_all_balcony)
     = [''regio1'', ''totalRent'', ''livingSpace'', ''balcony'', ''price_category'']
   \<and> map balcony (rows (load_data csv_all_balcony)) = [Some True, Some True]
   \<and> without_amenity ''balcony'' (load_data csv_all_balcony) = NaN
   \<and> amenity_results (load_data csv_all_balcony) = []
   \<and> amenity_df (load_data csv_all_balcony) = None"
proof -
  have r: "amenity_results (load_data csv_all_balcony) = []"
    by (simp add: amenity_results_def amenities_def columns_csv_all_balcony all_balcony_means)
  then have "amenity_df (load_data csv_all_balcony) = None" by (simp add: amenity_df_def)
  with r show ?thesis
    by (simp add: columns_csv_all_balcony all_balcony_means rows_csv_all_balcony listing_def)
qed

text \<open>
  C7. An amenity whose mean rent without it is zero is absent from the results and from the
  sorted table. Nothing is raised, and the other results are unaffected: they are the results
  of the loop over the list without that amenity.
\<close>

theorem zero_mean_without_amenity_omitted:
  "without_amenity a df = Fin 0 \<Longrightarrow>
   a \<notin> set (map amenity (amenity_results df))
   \<and> (\<forall>t. amenity_df df = Some t \<longrightarrow> a \<notin> set (map amenity t))
   \<and> amenity_results df = amenity_loop (removeAll a amenities) df []"
proof -
  assume z: "without_amenity a df = Fin 0"
  then have nf: "\<not> flt (Fin 0) (without_amenity a df)" by simp
  have absent: "a \<notin> set (map amenity (amenity_results df))"
    using nf by (simp add: amenity_names)
  have "\<forall>t. amenity_df df = Some t \<longrightarrow> a \<notin> set (map amenity t)"
  proof (intro allI impI)
    fix t assume "amenity_df df = Some t"
    then have "set t = set (amenity_results df)"
      by (auto simp: amenity_df_def set_sort_values_desc split: if_splits)
    with absent show "a \<notin> set (map amenity t)" by simp
  qed
  moreover have "amenity_results df = amenity_loop (removeAll a amenities) df []"
    unfolding amenity_results_def using nf by (rule amenity_loop_skip)
  ultimately show ?thesis using absent by blast
qed

lemma rows_csv_free_cellar:
  "rows (load_data csv_free_cellar) =
     [(listing ''Berlin'' 0 20)\<lparr>balcony := Some True, cellar := Some False\<rparr>,
      (listing ''Berlin'' 900 50)\<lparr>price_category := Some Economy, balcony := Some False, cellar := Some True\<rparr>,
      (listing ''Bayern'' 600 40)\<lparr>price_category := Some Economy, balcony := Some False, cellar := Some True\<rparr>]"
  by (simp add: rows_load_data csv_free_cellar_def listing_def pd_cut_def)

lemma columns_csv_free_cellar:
  "columns (load_data csv_free_cellar)
     = [''regio1'', ''totalRent'', ''livingSpace'', ''balcony'', ''cellar'', ''price_category'']"
  by (simp add: load_data_def assign_price_category_def csv_free_cellar_def base_columns_def)

lemma free_cellar_means:
  "with_amenity ''balcony'' (load_data csv_free_cellar) = Fin 0"
  "without_amenity ''balcony'' (load_data csv_free_cellar) = Fin 750"
  "flag_sum ''balcony'' (load_data csv_free_cellar) = 1"
  "with_amenity ''cellar'' (load_data csv_free_cellar) = Fin 750"
  "without_amenity ''cellar'' (load_data csv_free_cellar) = Fin 0"
  by (simp_all add: with_amenity_def without_amenity_def flag_sum_def rows_csv_free_cellar
      listing_def amenity_cell_def series_mean_def fsum_def)

lemma free_cellar_entry:
  "amenity_entry ''balcony'' (load_data csv_free_cellar)
     = \<lparr>amenity = ''balcony'', premium_pct = Fin (- 100), prevalence = Fin (100 / 3)\<rparr>"
  by (simp add: amenity_entry_def free_cellar_means fsub_def rows_csv_free_cellar)

lemma free_cellar_results:
  "amenity_results (load_data csv_free_cellar)
     = [\<lparr>amenity = ''balcony'', premium_pct = Fin (- 100), prevalence = Fin (100 / 3)\<rparr>]"
  by (simp add: amenity_results_def amenities_def columns_csv_free_cellar free_cellar_means
      free_cellar_entry)

lemma free_cellar_df:
  "amenity_df (load_data csv_free_cellar)
     = Some [\<lparr>amenity = ''balcony'', premium_pct = Fin (- 100), prevalence = Fin (100 / 3)\<rparr>]"
  by (simp add: amenity_df_def free_cellar_results sort_values_desc_def)

theorem zero_mean_without_amenity_omitted_witness:
  "''cellar'' \<in> set amenities
   \<and> ''cellar'' \<in> set (columns (load_data csv_free_cellar))
   \<and> without_amenity ''cellar'' (load_data csv_free_cellar) = Fin 0
   \<and> map amenity (amenity_results (load_data csv_free_cellar)) = [''balcony'']
   \<and> amenity_df (load_data csv_free_cellar)
       = Some [\<lparr>amenity = ''balcony'', premium_pct = Fin (- 100), prevalence = Fin (100 / 3)\<rparr>]
   \<and> amenity_loop [''balcony'', ''hasKitchen'', ''lift'', ''garden''] (load_data csv_free_cellar) []
       = amenity_results (load_data csv_free_cellar)"
  using zero_mean_without_amenity_omitted [of "''cellar''" "load_data csv_free_cellar"]
  by (simp add: free_cellar_means free_cellar_results free_cellar_df columns_csv_free_cellar
      amenities_def amenity_of_entry)

section \<open>Properties of the segment and state tables\<close>

lemma keys_group_agg: "map key (group_agg keys col df) = keys"
  by (simp add: group_agg_def o_def Let_def)

lemma length_group_agg: "length (group_agg keys col df) = length keys"
  by (simp add: group_agg_def)

lemma segment_keys_facts:
  "length (segment_keys observed df) \<le> 4"
  "distinct (segment_keys observed df)"
  "set (segment_keys True df) = {c. Some c \<in> price_category ` set (rows df)}"
  "segment_keys False df = categories"
proof -
  have "length (filter (\<lambda>c. Some c \<in> set (map price_category (rows df))) categories)
          \<le> length categories"
    by (rule length_filter_le)
  then show "length (segment_keys observed df) \<le> 4"
    by (simp add: segment_keys_def categories_def del: filter.simps)
  show "distinct (segment_keys observed df)"
    by (simp add: segment_keys_def categories_def)
  have all: "\<And>c. c \<in> set categories"
  proof -
    fix c show "c \<in> set categories" by (cases c) (simp_all add: categories_def)
  qed
  show "set (segment_keys True df) = {c. Some c \<in> price_category ` set (rows df)}"
    by (auto simp: segment_keys_def all)
  show "segment_keys False df = categories" by (simp add: segment_keys_def)
qed

lemma set_map_filter_regio1:
  "set (List.map_filter regio1 rs) = {s. Some s \<in> regio1 ` set rs}"
  by (induction rs) (auto split: option.splits)

lemma state_keys_facts:
  "distinct (state_keys df)"
  "set (state_keys df) = {s. Some s \<in> regio1 ` set (rows df)}"
  by (simp_all add: state_keys_def set_map_filter_regio1)

lemma state_data_keys:
  "mset (map key (state_data df)) = mset (state_keys df)"
proof -
  have "mset (map key (state_data df)) = image_mset key (mset (state_data df))" by simp
  also have "\<dots> = image_mset key (mset (group_agg (state_keys df) regio1 df))"
    by (simp only: state_data_def mset_sort_values_desc)
  also have "\<dots> = mset (map key (group_agg (state_keys df) regio1 df))" by simp
  finally show ?thesis by (simp only: keys_group_agg)
qed

lemma length_state_data: "length (state_data df) = length (state_keys df)"
  by (simp add: state_data_def length_sort_values_desc length_group_agg)

lemma state_data_distinct_keys:
  "distinct (map key (state_data df))"
  "set (map key (state_data df)) = {s. Some s \<in> regio1 ` set (rows df)}"
proof -
  show "distinct (map key (state_data df))"
    using state_data_keys [of df] state_keys_facts(1) [of df]
    by (metis mset_eq_imp_distinct_iff)
  show "set (map key (state_data df)) = {s. Some s \<in> regio1 ` set (rows df)}"
    using state_data_keys [of df] state_keys_facts(2) [of df]
    by (metis mset_eq_setD)
qed

lemma length_state_data_card:
  "length (state_data df) = card {s. Some s \<in> regio1 ` set (rows df)}"
  using state_keys_facts [of df] by (simp add: length_state_data flip: distinct_card)

lemma length_state_data_bound:
  assumes "finite S" and "card S \<le> n" and "{s. Some s \<in> regio1 ` set (rows df)} \<subseteq> S"
  shows "length (state_data df) \<le> n"
proof -
  have "length (state_data df) = card (set (state_keys df))"
    by (simp add: length_state_data distinct_card state_keys_facts(1))
  also have "\<dots> \<le> card S"
    using assms(1,3) by (simp add: state_keys_facts(2) card_mono)
  finally show ?thesis using assms(2) by simp
qed

text \<open>
  C9. The segment table never has more than 4 rows and its keys are distinct. It has one row
  for each price category present when the grouping keeps the observed categories only, and
  one row for each of the four categories otherwise. The state table has one row for each
  distinct region present (a missing region is no group), so it never has more than 16 rows
  when the regions of the table are among 16 names.
\<close>

theorem segment_and_state_row_counts:
  "length (segment_data observed df) \<le> 4
   \<and> distinct (map key (segment_data observed df))
   \<and> set (map key (segment_data True df)) = {c. Some c \<in> price_category ` set (rows df)}
   \<and> map key (segment_data False df) = categories
   \<and> distinct (map key (state_data df))
   \<and> set (map key (state_data df)) = {s. Some s \<in> regio1 ` set (rows df)}
   \<and> length (state_data df) = card {s. Some s \<in> regio1 ` set (rows df)}
   \<and> (finite S \<and> card S \<le> 16 \<and> {s. Some s \<in> regio1 ` set (rows df)} \<subseteq> S \<longrightarrow>
        length (state_data df) \<le> 16)"
  using segment_keys_facts(1,2) [of observed df] segment_keys_facts(3,4) [of df]
    state_data_distinct_keys [of df] length_state_data_bound [of S 16 df]
    length_state_data_card [of df]
  by (simp add: segment_data_def keys_group_agg length_group_agg)

lemma state_keys_seventeen: "length (state_keys (load_data csv_seventeen)) = 17"
  by (simp add: state_keys_def rows_load_data csv_seventeen_def seventeen_regions_def
      listing_def)

text \<open>
  The script does not restrict the regions: a table with 17 distinct regions gives a state
  table of 17 rows.
\<close>

theorem seventeen_regions_give_seventeen_rows: "length (state_data (load_data csv_seventeen)) = 17"
  by (simp add: length_state_data state_keys_seventeen)

lemma segment_keys_berlin: "segment_keys True berlin_view = [Budget, MidRange]"
  by (simp add: segment_keys_def categories_def rows_berlin_view listing_def)

lemma state_keys_berlin: "state_keys berlin_view = [''Berlin'']"
  by (simp add: state_keys_def rows_berlin_view listing_def)

theorem segment_and_state_row_counts_witness:
  "finite {''Berlin'', ''Bayern''} \<and> card {''Berlin'', ''Bayern''} \<le> 16
   \<and> set (map regio1 (rows berlin_view)) = {Some ''Berlin''}
   \<and> map key (segment_data True berlin_view) = [Budget, MidRange]
   \<and> length (segment_data False berlin_view) = 4
   \<and> map key (state_data berlin_view) = [''Berlin'']"
  using segment_and_state_row_counts [of True berlin_view "{''Berlin'', ''Bayern''}"]
  by (simp add: segment_data_def keys_group_agg length_group_agg segment_keys_berlin
      segment_keys_def categories_def state_data_def state_keys_berlin group_agg_def
      sort_values_desc_def rows_berlin_view listing_def)

end
